theory Spec2Isabelle
  imports Complex_Main "HOL-Library.Sublist"
begin

section \<open>JavaScript strings\<close>

text \<open>
  A JavaScript string is a sequence of UTF-16 code units, and \<open>length\<close>, \<open>slice\<close>,
  \<open>trim\<close> and the regular expressions of the sources (none has the \<open>u\<close> flag) all
  work on code units. A code unit is modelled by its numeric value, so that the em dash
  (U+2014) of the clause separators and the Unicode white space that \<open>\s\<close> and
  \<open>trim\<close> know are all present. \<open>js\<close> turns an ASCII literal into such a string.
\<close>

type_synonym jschar = nat
type_synonym jsstring = "nat list"

definition js :: "string \<Rightarrow> jsstring" where
  "js s = map of_char s"

text \<open>
  The class \<open>\s\<close> of a regular expression, which is also the set of characters that
  \<open>String.prototype.trim\<close> strips: tab, LF, VT, FF, CR, space, U+00A0, U+1680,
  U+2000 to U+200A, U+2028, U+2029, U+202F, U+205F, U+3000 and U+FEFF.
\<close>

definition isWhiteSpace :: "jschar \<Rightarrow> bool" where
  "isWhiteSpace c \<longleftrightarrow>
     c = 9 \<or> c = 10 \<or> c = 11 \<or> c = 12 \<or> c = 13 \<or> c = 32 \<or> c = 160 \<or> c = 5760 \<or>
     (8192 \<le> c \<and> c \<le> 8202) \<or> c = 8232 \<or> c = 8233 \<or> c = 8239 \<or> c = 8287 \<or>
     c = 12288 \<or> c = 65279"

definition trim :: "jsstring \<Rightarrow> jsstring" where
  "trim s = rev (dropWhile isWhiteSpace (rev (dropWhile isWhiteSpace s)))"

text \<open>\<open>s.lastIndexOf(c, pos)\<close> for a one-character needle: the greatest index not above
  \<open>pos\<close> that holds \<open>c\<close>, or \<open>-1\<close>.\<close>

definition lastIndexOf :: "jsstring \<Rightarrow> jschar \<Rightarrow> nat \<Rightarrow> int" where
  "lastIndexOf s c pos =
     (case filter (\<lambda>i. s ! i = c) (rev [0 ..< min (Suc pos) (length s)]) of
        [] \<Rightarrow> - 1
      | i # _ \<Rightarrow> int i)"

section \<open>SentenceSplitter (src/core/sentence-splitter.ts)\<close>

definition MIN_CHUNK :: nat where
  "MIN_CHUNK = 20"

definition MAX_CHUNK :: nat where
  "MAX_CHUNK = 150"

text \<open>The character classes of the sentence terminators (full stop, exclamation mark, question mark) and of the clause separators (comma, semicolon, colon and the em dash U+2014).\<close>

definition isTerminator :: "jschar \<Rightarrow> bool" where
  "isTerminator c \<longleftrightarrow> c = 46 \<or> c = 33 \<or> c = 63"

definition isClauseSep :: "jschar \<Rightarrow> bool" where
  "isClauseSep c \<longleftrightarrow> c = 44 \<or> c = 59 \<or> c = 58 \<or> c = 8212"

text \<open>
  \<open>buffer.match(/[^.!?]*[.!?]\s*/)\<close>: the result is the index and the text of the
  leftmost match, or nothing. From index 0 the greedy \<open>[^.!?]*\<close> runs up to the first
  terminator of the buffer, \<open>[.!?]\<close> takes it and the greedy \<open>\s*\<close> takes the white
  space behind it; so a buffer with a terminator always matches at index 0, and a buffer
  without one never matches.
\<close>

definition sentenceMatch :: "jsstring \<Rightarrow> (nat \<times> jsstring) option" where
  "sentenceMatch buffer =
     (case dropWhile (\<lambda>c. \<not> isTerminator c) buffer of
        [] \<Rightarrow> None
      | t # rest \<Rightarrow>
          Some (0, takeWhile (\<lambda>c. \<not> isTerminator c) buffer @ t # takeWhile isWhiteSpace rest))"

text \<open>
  The match of the clause expression (one clause separator, then \<open>\s*\<close>) on the buffer: the leftmost match starts at the first clause
  separator and takes the white space behind it.
\<close>

definition clauseMatch :: "jsstring \<Rightarrow> (nat \<times> jsstring) option" where
  "clauseMatch buffer =
     (case dropWhile (\<lambda>c. \<not> isClauseSep c) buffer of
        [] \<Rightarrow> None
      | t # rest \<Rightarrow>
          Some (length (takeWhile (\<lambda>c. \<not> isClauseSep c) buffer), t # takeWhile isWhiteSpace rest))"

text \<open>
  One pass through the body of the \<open>while (true)\<close> loop of \<open>extractChunks\<close>: the chunk
  pushed and the buffer assigned by the branch that reaches \<open>continue\<close>, or \<open>None\<close>
  when the pass reaches \<open>break\<close>. \<open>slice(0, end)\<close> and \<open>slice(end)\<close> with
  \<open>0 \<le> end\<close> are \<open>take end\<close> and \<open>drop end\<close> (both clamp at the length).
\<close>

definition sentenceRule :: "jsstring \<Rightarrow> (jsstring \<times> jsstring) option" where
  "sentenceRule buffer =
     (case sentenceMatch buffer of
        None \<Rightarrow> None
      | Some (index, m) \<Rightarrow>
          (let end = index + length m;
               chunk = trim (take end buffer)
           in if length chunk \<ge> MIN_CHUNK then Some (chunk, drop end buffer) else None))"

definition clauseRule :: "jsstring \<Rightarrow> (jsstring \<times> jsstring) option" where
  "clauseRule buffer =
     (case clauseMatch buffer of
        None \<Rightarrow> None
      | Some (index, m) \<Rightarrow>
          if index \<ge> MIN_CHUNK
          then (let end = index + length m;
                    chunk = trim (take end buffer)
                in Some (chunk, drop end buffer))
          else None)"

definition wordRule :: "jsstring \<Rightarrow> (jsstring \<times> jsstring) option" where
  "wordRule buffer =
     (let spaceIdx = lastIndexOf buffer 32 MAX_CHUNK
      in if spaceIdx \<ge> int MIN_CHUNK
         then (let chunk = trim (take (nat spaceIdx) buffer)
               in Some (chunk, drop (nat spaceIdx) buffer))
         else None)"

definition splitStep :: "jsstring \<Rightarrow> (jsstring \<times> jsstring) option" where
  "splitStep buffer =
     (case sentenceRule buffer of
        Some r \<Rightarrow> Some r
      | None \<Rightarrow>
          if length buffer \<ge> MAX_CHUNK
          then (case clauseRule buffer of
                  Some r \<Rightarrow> Some r
                | None \<Rightarrow> wordRule buffer)
          else None)"

lemma length_trim_le: "length (trim s) \<le> length s"
proof -
  have "length (trim s) \<le> length (rev (dropWhile isWhiteSpace s))"
    unfolding trim_def length_rev [of "dropWhile isWhiteSpace (rev (dropWhile isWhiteSpace s))"]
    by (rule length_dropWhile_le)
  also have "\<dots> \<le> length s" by (simp add: length_dropWhile_le)
  finally show ?thesis .
qed

lemma sentenceRule_shrinks:
  assumes "sentenceRule b = Some (c, b')"
  shows "length b' < length b"
proof -
  from assms obtain e where e: "c = trim (take e b)" "b' = drop e b" "MIN_CHUNK \<le> length c"
    by (auto simp: sentenceRule_def Let_def split: option.splits if_splits)
  have "length c \<le> length (take e b)" using e(1) length_trim_le by blast
  with e(3) have "0 < e" "0 < length b" by (auto simp: MIN_CHUNK_def)
  with e(2) show ?thesis by simp
qed

lemma clauseMatch_index:
  assumes "clauseMatch b = Some (i, m)"
  shows "i < length b" and "m \<noteq> []"
proof -
  let ?p = "\<lambda>c. \<not> isClauseSep c"
  from assms obtain t rest where d: "dropWhile ?p b = t # rest"
    and i: "i = length (takeWhile ?p b)" and m: "m = t # takeWhile isWhiteSpace rest"
    by (auto simp: clauseMatch_def split: list.splits)
  have "length (takeWhile ?p b) + length (dropWhile ?p b) = length b"
    by (metis length_append takeWhile_dropWhile_id)
  with d i show "i < length b" by simp
  from m show "m \<noteq> []" by simp
qed

lemma clauseRule_shrinks:
  assumes "clauseRule b = Some (c, b')"
  shows "length b' < length b"
proof -
  from assms obtain i m where im: "clauseMatch b = Some (i, m)"
    and rest: "b' = drop (i + length m) b"
    by (auto simp: clauseRule_def Let_def split: option.splits if_splits)
  from clauseMatch_index [OF im] have "0 < i + length m" "0 < length b" by auto
  then have "length b - (i + length m) < length b" by (rule diff_less)
  with rest show ?thesis by simp
qed

lemma lastIndexOf_less: "lastIndexOf s c pos < int (length s)"
proof (cases "filter (\<lambda>i. s ! i = c) (rev [0 ..< min (Suc pos) (length s)])")
  case Nil
  then show ?thesis by (simp add: lastIndexOf_def)
next
  case (Cons i rest)
  then have "i \<in> set (filter (\<lambda>i. s ! i = c) (rev [0 ..< min (Suc pos) (length s)]))"
    by simp
  then have "i < length s" by simp
  with Cons show ?thesis by (simp add: lastIndexOf_def)
qed

lemma wordRule_shrinks:
  assumes "wordRule b = Some (c, b')"
  shows "length b' < length b"
proof -
  let ?k = "lastIndexOf b 32 MAX_CHUNK"
  from assms have k: "int MIN_CHUNK \<le> ?k" and rest: "b' = drop (nat ?k) b"
    by (auto simp: wordRule_def Let_def split: if_splits)
  have "?k < int (length b)" by (rule lastIndexOf_less)
  with k rest show ?thesis by (simp add: MIN_CHUNK_def)
qed

lemma splitStep_shrinks:
  assumes "splitStep b = Some (c, b')"
  shows "length b' < length b"
  using assms sentenceRule_shrinks clauseRule_shrinks wordRule_shrinks
  by (auto simp: splitStep_def split: option.splits if_splits)

text \<open>
  The loop of \<open>extractChunks\<close>, started on the buffer: the chunks pushed, in order, and
  the buffer that is left when the loop breaks. Every pass that continues shortens the
  buffer, so the loop ends.
\<close>

function extractChunks :: "jsstring \<Rightarrow> jsstring list \<times> jsstring" where
  "extractChunks buffer =
     (case splitStep buffer of
        None \<Rightarrow> ([], buffer)
      | Some (chunk, buffer') \<Rightarrow>
          (let (chunks, final) = extractChunks buffer' in (chunk # chunks, final)))"
  by pat_completeness auto
termination
  by (relation "measure length") (auto dest: splitStep_shrinks)

declare extractChunks.simps [simp del]

text \<open>The splitter's only field is its buffer; each method returns its result and the
  new buffer.\<close>

definition push :: "jsstring \<Rightarrow> jsstring \<Rightarrow> jsstring list \<times> jsstring" where
  "push buffer token = extractChunks (buffer @ token)"

definition flush :: "jsstring \<Rightarrow> jsstring option \<times> jsstring" where
  "flush buffer = (let text = trim buffer in (if length text > 0 then Some text else None, []))"

definition reset :: "jsstring \<Rightarrow> jsstring" where
  "reset buffer = []"

text \<open>A fresh splitter fed a sequence of fragments: all chunks returned by the pushes,
  in order, and the buffer after the last push.\<close>

fun pushAll :: "jsstring \<Rightarrow> jsstring list \<Rightarrow> jsstring list \<times> jsstring" where
  "pushAll buffer [] = ([], buffer)"
| "pushAll buffer (token # tokens) =
     (let (chunks, buffer') = push buffer token;
          (more, final) = pushAll buffer' tokens
      in (chunks @ more, final))"

text \<open>The text that a run hands out: the chunks of the pushes followed by the result of
  the final \<open>flush()\<close>, \<open>null\<close> read as the empty string.\<close>

definition emitted :: "jsstring list \<Rightarrow> jsstring" where
  "emitted tokens =
     (let (chunks, buffer) = pushAll [] tokens
      in concat chunks @ (case fst (flush buffer) of None \<Rightarrow> [] | Some text \<Rightarrow> text))"

text \<open>The same output piece by piece: the chunks of the pushes, in order, followed by
  the result of the final \<open>flush()\<close>, \<open>null\<close> read as the empty string.\<close>

definition pieces :: "jsstring list \<Rightarrow> jsstring list" where
  "pieces tokens =
     (let (chunks, buffer) = pushAll [] tokens
      in chunks @ [case fst (flush buffer) of None \<Rightarrow> [] | Some text \<Rightarrow> text])"

subsection \<open>What a run of the splitter keeps of its input\<close>

lemma splitStep_slices:
  assumes "splitStep b = Some (c, b')"
  shows "\<exists>e. c = trim (take e b) \<and> b' = drop e b"
  using assms
  by (auto simp: splitStep_def sentenceRule_def clauseRule_def wordRule_def Let_def
           split: option.splits if_splits)

lemma extractChunks_cuts:
  "\<exists>ps. concat ps @ snd (extractChunks b) = b \<and> fst (extractChunks b) = map trim ps"
proof (induction b rule: extractChunks.induct)
  case (1 buffer)
  show ?case
  proof (cases "splitStep buffer")
    case None
    then have "concat [] @ snd (extractChunks buffer) = buffer \<and>
        fst (extractChunks buffer) = map trim []"
      by (simp add: extractChunks.simps [of buffer])
    then show ?thesis by blast
  next
    case (Some r)
    obtain c b' where r: "r = (c, b')" by (cases r)
    from Some r splitStep_slices obtain e where e: "c = trim (take e buffer)" "b' = drop e buffer"
      by blast
    have "\<exists>ps. concat ps @ snd (extractChunks b') = b' \<and> fst (extractChunks b') = map trim ps"
      using "1.IH" Some r by simp
    then obtain ps where ps: "concat ps @ snd (extractChunks b') = b'"
      "fst (extractChunks b') = map trim ps"
      by blast
    have "concat (take e buffer # ps) @ snd (extractChunks buffer) = buffer \<and>
        fst (extractChunks buffer) = map trim (take e buffer # ps)"
      using Some r e ps by (simp add: extractChunks.simps [of buffer] case_prod_beta)
    then show ?thesis by blast
  qed
qed

lemma pushAll_cuts:
  "\<exists>ps. concat ps @ snd (pushAll b ts) = b @ concat ts \<and> fst (pushAll b ts) = map trim ps"
proof (induction ts arbitrary: b)
  case Nil
  have "concat [] @ snd (pushAll b []) = b @ concat [] \<and> fst (pushAll b []) = map trim []"
    by simp
  then show ?case by blast
next
  case (Cons t ts)
  let ?r = "extractChunks (b @ t)"
  obtain ps1 where ps1: "concat ps1 @ snd ?r = b @ t" "fst ?r = map trim ps1"
    using extractChunks_cuts by blast
  obtain ps2 where ps2: "concat ps2 @ snd (pushAll (snd ?r) ts) = snd ?r @ concat ts"
    "fst (pushAll (snd ?r) ts) = map trim ps2"
    using Cons.IH by blast
  have "concat (ps1 @ ps2) @ snd (pushAll (snd ?r) ts) = concat ps1 @ snd ?r @ concat ts"
    using ps2(1) by simp
  also have "\<dots> = (b @ t) @ concat ts" using ps1(1) by simp
  finally have "concat (ps1 @ ps2) @ snd (pushAll b (t # ts)) = b @ concat (t # ts)"
    by (simp add: push_def case_prod_beta)
  moreover have "fst (pushAll b (t # ts)) = map trim (ps1 @ ps2)"
    using ps1(2) ps2(2) by (simp add: push_def case_prod_beta)
  ultimately show ?case by blast
qed

lemma flush_text: "(case fst (flush b) of None \<Rightarrow> [] | Some text \<Rightarrow> text) = trim b"
  by (simp add: flush_def Let_def)

text \<open>
  C3, as the code has it. The pushed text can be cut into consecutive pieces \<open>ps\<close>
  (nothing left out, nothing twice, nothing moved: \<open>concat ps\<close> is the pushed text) such
  that the chunks of the pushes followed by the final flush are these pieces, one by
  one, each trimmed. So the only characters that are lost are white space at the two
  ends of a piece; white space inside a chunk stays where it is.
\<close>

theorem emitted_keeps_text:
  "\<exists>ps. concat ps = concat tokens \<and> pieces tokens = map trim ps \<and>
        emitted tokens = concat (map trim ps)"
proof -
  let ?r = "pushAll [] tokens"
  obtain ps where ps: "concat ps @ snd ?r = [] @ concat tokens" "fst ?r = map trim ps"
    using pushAll_cuts by blast
  have "concat (ps @ [snd ?r]) = concat tokens" using ps(1) by simp
  moreover have "pieces tokens = map trim (ps @ [snd ?r])"
    using ps(2) by (simp add: pieces_def case_prod_beta flush_text)
  moreover have "emitted tokens = concat (map trim (ps @ [snd ?r]))"
    using ps(2) by (simp add: emitted_def case_prod_beta flush_text)
  ultimately show ?thesis by blast
qed

text \<open>
  C3, as stated, fails: the splitter's own test input \<open>This is a test sentence. \<close>
  comes back without its final space, so the output is not the concatenation of the
  pushed fragments.
\<close>

theorem emitted_drops_space:
  "emitted [js ''This is a test sentence. ''] = js ''This is a test sentence.'' \<and>
   emitted [js ''This is a test sentence. ''] \<noteq> concat [js ''This is a test sentence. '']"
  by (simp add: emitted_def push_def extractChunks.simps splitStep_def sentenceRule_def
      sentenceMatch_def js_def isTerminator_def isWhiteSpace_def trim_def MIN_CHUNK_def
      MAX_CHUNK_def flush_def Let_def)

text \<open>Two fragments, the first with a sentence and the space behind it: the space is
  lost at the end of the first piece, the space inside the sentence is kept.\<close>

theorem emitted_keeps_text_witness:
  "(\<exists>ps. concat ps = concat [js ''This is a test sentence. '', js ''Next''] \<and>
         pieces [js ''This is a test sentence. '', js ''Next''] = map trim ps \<and>
         emitted [js ''This is a test sentence. '', js ''Next''] = concat (map trim ps)) \<and>
   pieces [js ''This is a test sentence. '', js ''Next''] =
     [js ''This is a test sentence.'', js ''Next'']"
  using emitted_keeps_text [of "[js ''This is a test sentence. '', js ''Next'']"]
  by (simp add: pieces_def push_def extractChunks.simps splitStep_def sentenceRule_def
      sentenceMatch_def js_def isTerminator_def isWhiteSpace_def trim_def MIN_CHUNK_def
      MAX_CHUNK_def flush_def Let_def)

subsection \<open>Rule 1: the split at a sentence boundary\<close>

lemma first_terminator_split:
  assumes "i < length b" "isTerminator (b ! i)" "\<forall>j<i. \<not> isTerminator (b ! j)"
  shows "takeWhile (\<lambda>c. \<not> isTerminator c) b = take i b"
    and "dropWhile (\<lambda>c. \<not> isTerminator c) b = b ! i # drop (Suc i) b"
proof -
  show t: "takeWhile (\<lambda>c. \<not> isTerminator c) b = take i b"
    using assms by (intro takeWhile_eq_take_P_nth) auto
  have "dropWhile (\<lambda>c. \<not> isTerminator c) b = drop i b"
    using t assms(1) by (simp add: dropWhile_eq_drop)
  then show "dropWhile (\<lambda>c. \<not> isTerminator c) b = b ! i # drop (Suc i) b"
    using assms(1) by (simp add: Cons_nth_drop_Suc)
qed

lemma trim_trailing_space:
  assumes "\<forall>c\<in>set w. isWhiteSpace c"
  shows "trim (s @ w) = trim s"
proof (cases "\<forall>c\<in>set s. isWhiteSpace c")
  case True
  with assms have "\<forall>c\<in>set (s @ w). isWhiteSpace c" by auto
  then have "dropWhile isWhiteSpace (s @ w) = []"
    unfolding dropWhile_eq_Nil_conv .
  moreover from True have "dropWhile isWhiteSpace s = []"
    unfolding dropWhile_eq_Nil_conv .
  ultimately show ?thesis unfolding trim_def by (simp only:)
next
  case False
  then have "dropWhile isWhiteSpace (s @ w) = dropWhile isWhiteSpace s @ w"
    by (auto simp add: dropWhile_append)
  moreover have "dropWhile isWhiteSpace (rev w @ rev (dropWhile isWhiteSpace s))
      = dropWhile isWhiteSpace (rev (dropWhile isWhiteSpace s))"
    using assms by (simp add: dropWhile_append)
  ultimately show ?thesis by (simp add: trim_def)
qed

lemma sentenceRule_first_terminator:
  assumes "i < length b" "isTerminator (b ! i)" "\<forall>j<i. \<not> isTerminator (b ! j)"
     and "MIN_CHUNK \<le> length (trim (take (Suc i) b))"
  shows "sentenceRule b = Some (trim (take (Suc i) b), dropWhile isWhiteSpace (drop (Suc i) b))"
proof -
  let ?rest = "drop (Suc i) b"
  let ?w = "takeWhile isWhiteSpace ?rest"
  have m: "sentenceMatch b = Some (0, take i b @ b ! i # ?w)"
    using first_terminator_split [OF assms(1-3)] by (simp add: sentenceMatch_def)
  have len: "0 + length (take i b @ b ! i # ?w) = Suc i + length ?w"
    using assms(1) by simp
  have tk: "take (Suc i + length ?w) b = take (Suc i) b @ ?w"
  proof -
    have "take (Suc i + length ?w) b = take (Suc i) b @ take (length ?w) ?rest"
      by (rule take_add)
    moreover have "take (length ?w) ?rest = ?w"
      by (metis append_eq_conv_conj takeWhile_dropWhile_id)
    ultimately show ?thesis by simp
  qed
  have dr: "drop (Suc i + length ?w) b = dropWhile isWhiteSpace ?rest"
    by (simp add: dropWhile_eq_drop add.commute)
  have "\<forall>c\<in>set ?w. isWhiteSpace c" by (auto dest: set_takeWhileD)
  then have tr: "trim (take (Suc i) b @ ?w) = trim (take (Suc i) b)"
    by (rule trim_trailing_space)
  show ?thesis
    unfolding sentenceRule_def m option.case prod.case Let_def len tk dr tr
    using assms(4) by simp
qed

text \<open>
  C4, as the code has it. Rule 1 looks at the first terminator of the buffer only, and
  measures the chunk after trimming. When the text up to and including the first
  terminator, trimmed, has at least \<open>MIN_CHUNK\<close> characters, the push emits that
  trimmed text as its first chunk, removes it and the white space behind the terminator
  from the buffer, and goes on splitting what is left. White space behind the terminator
  is not needed for the split.
\<close>

theorem push_first_sentence:
  assumes "i < length (buffer @ token)"
    and "isTerminator ((buffer @ token) ! i)"
    and "\<forall>j<i. \<not> isTerminator ((buffer @ token) ! j)"
    and "MIN_CHUNK \<le> length (trim (take (Suc i) (buffer @ token)))"
  shows "push buffer token =
      (trim (take (Suc i) (buffer @ token)) #
         fst (extractChunks (dropWhile isWhiteSpace (drop (Suc i) (buffer @ token)))),
       snd (extractChunks (dropWhile isWhiteSpace (drop (Suc i) (buffer @ token)))))"
proof -
  have "splitStep (buffer @ token) =
      Some (trim (take (Suc i) (buffer @ token)), dropWhile isWhiteSpace (drop (Suc i) (buffer @ token)))"
    using sentenceRule_first_terminator [OF assms] by (simp add: splitStep_def)
  then show ?thesis
    by (simp add: push_def extractChunks.simps [of "buffer @ token"] case_prod_beta)
qed

lemmas splitter_eval = emitted_def push_def extractChunks.simps splitStep_def sentenceRule_def
  sentenceMatch_def js_def isTerminator_def isWhiteSpace_def trim_def MIN_CHUNK_def
  MAX_CHUNK_def flush_def Let_def

text \<open>
  C4, as stated, fails on the input of the splitter's own test of a short first sentence:
  after the push the buffer holds a full stop at index 34 with a space behind it and 35
  characters up to and including it, yet the push emits nothing and the buffer keeps
  everything. The sentence expression always matches at the first terminator of the
  buffer (here the one of \<open>Hi.\<close>), and a first sentence below \<open>MIN_CHUNK\<close> stops
  rule 1.
\<close>

theorem push_short_first_sentence:
  "isTerminator (js ''Hi. This is more text that goes on. '' ! 34) \<and>
   isWhiteSpace (js ''Hi. This is more text that goes on. '' ! 35) \<and>
   MIN_CHUNK \<le> length (take 35 (js ''Hi. This is more text that goes on. '')) \<and>
   push [] (js ''Hi. This is more text that goes on. '') = ([], js ''Hi. This is more text that goes on. '')"
  by (simp add: splitter_eval)

theorem push_first_sentence_witness:
  "23 < length (js ''This is '' @ js ''a test sentence. Next'') \<and>
   isTerminator ((js ''This is '' @ js ''a test sentence. Next'') ! 23) \<and>
   MIN_CHUNK \<le> length (trim (take (Suc 23) (js ''This is '' @ js ''a test sentence. Next''))) \<and>
   push (js ''This is '') (js ''a test sentence. Next'') =
     ([js ''This is a test sentence.''], js ''Next'')"
proof -
  have "(23::nat) < length (js ''This is '' @ js ''a test sentence. Next'')" by (simp add: js_def)
  moreover have "isTerminator ((js ''This is '' @ js ''a test sentence. Next'') ! 23)" by (simp add: js_def isTerminator_def)
  moreover have "\<forall>j<23. \<not> isTerminator ((js ''This is '' @ js ''a test sentence. Next'') ! j)" 
    by (simp add: js_def isTerminator_def All_less_Suc numeral_eq_Suc del: upt_Suc)
  moreover have "MIN_CHUNK \<le> length (trim (take (Suc 23) (js ''This is '' @ js ''a test sentence. Next'')))"
    by (simp add: splitter_eval)
  ultimately show ?thesis
    using push_first_sentence [of 23 "js ''This is ''" "js ''a test sentence. Next''"]
    by (simp add: splitter_eval)
qed

section \<open>Messages, LLM chunks and thrown values (src/core/types.ts)\<close>

datatype role = System | User | Assistant

record message =
  role :: role
  content :: jsstring

datatype chunk_type = Token | Segment | ToolCall | Done

record segment =
  lang :: jsstring
  seg_text :: jsstring

text \<open>An \<open>LLMChunk\<close>: the tag \<open>type\<close> and the optional fields, absent as \<open>None\<close>.\<close>

record llm_chunk =
  ctype :: chunk_type
  token :: "jsstring option"
  segment :: "segment option"
  toolCall :: "(jsstring \<times> jsstring) option"
  usage :: "(nat \<times> nat) option"

text \<open>
  What a \<open>throw\<close> carries: an \<open>Error\<close> object with its \<open>name\<close> and \<open>message\<close>,
  or any other value (kept as the string that \<open>String(err)\<close> gives).
\<close>

datatype js_error = Error (name: jsstring) (message: jsstring) | NonError jsstring

text \<open>
  The stream that \<open>llm.chat(messages)\<close> returns, read to its end by \<open>for await\<close>:
  the chunks it yields, and then either its return or the value it throws. The plugin
  is a collaborator; its behaviour is a parameter.
\<close>

datatype stream_end = Returned | Threw js_error

type_synonym llm_stream = "llm_chunk list \<times> stream_end"

type_synonym llm_plugin = "message list \<Rightarrow> llm_stream"

text \<open>A string in a condition is true when it is neither absent nor empty.\<close>

definition truthy :: "jsstring option \<Rightarrow> bool" where
  "truthy s = (case s of None \<Rightarrow> False | Some t \<Rightarrow> t \<noteq> [])"

text \<open>
  \<open>Array.prototype.slice\<close>: a negative index counts from the end, and both indices
  are clamped to the array. \<open>slice_from xs start\<close> is \<open>xs.slice(start)\<close>.
\<close>

definition rel_index :: "nat \<Rightarrow> int \<Rightarrow> nat" where
  "rel_index len i = (if i < 0 then nat (max (int len + i) 0) else min (nat i) len)"

definition slice :: "'a list \<Rightarrow> int \<Rightarrow> int \<Rightarrow> 'a list" where
  "slice xs start end =
     (let k = rel_index (length xs) start;
          final = rel_index (length xs) end
      in take (final - k) (drop k xs))"

definition slice_from :: "'a list \<Rightarrow> int \<Rightarrow> 'a list" where
  "slice_from xs start = drop (rel_index (length xs) start) xs"

text \<open>\<open>Array.prototype.join\<close> on strings.\<close>

fun join :: "jsstring \<Rightarrow> jsstring list \<Rightarrow> jsstring" where
  "join sep [] = []"
| "join sep [x] = x"
| "join sep (x # y # ys) = x @ sep @ join sep (y # ys)"

section \<open>ContextManager (src/core/context-manager.ts)\<close>

text \<open>
  \<open>Math.ceil(text.length / 4)\<close>. The lengths are far below \<open>2^53\<close>, where the
  floating-point division and ceiling are exact.
\<close>

definition estimateTokens :: "jsstring \<Rightarrow> int" where
  "estimateTokens txt = \<lceil>real (length txt) / 4\<rceil>"

record context_manager_options =
  opt_instructions :: jsstring
  opt_maxContextTokens :: "int option"
  opt_recentTurnsToKeep :: "int option"

record turn =
  speaker :: jsstring
  turn_text :: jsstring
  isAgent :: bool
  timestamp :: nat

record context_manager =
  instructions :: jsstring
  maxContextTokens :: int
  recentTurnsToKeep :: int
  turns :: "turn list"
  summary :: "jsstring option"

definition new_ContextManager :: "context_manager_options \<Rightarrow> context_manager" where
  "new_ContextManager options =
     \<lparr> instructions = opt_instructions options,
       maxContextTokens = (case opt_maxContextTokens options of None \<Rightarrow> 5000 | Some n \<Rightarrow> n),
       recentTurnsToKeep = (case opt_recentTurnsToKeep options of None \<Rightarrow> 4 | Some n \<Rightarrow> n),
       turns = [],
       summary = None \<rparr>"

text \<open>\<open>now\<close> is the value of \<open>Date.now()\<close> at the call.\<close>

definition addUserTurn :: "nat \<Rightarrow> jsstring \<Rightarrow> jsstring \<Rightarrow> context_manager \<Rightarrow> context_manager" where
  "addUserTurn now spk txt cm =
     cm\<lparr>turns := turns cm @ [\<lparr>speaker = spk, turn_text = txt, isAgent = False, timestamp = now\<rparr>]\<rparr>"

definition addAgentTurn :: "nat \<Rightarrow> jsstring \<Rightarrow> context_manager \<Rightarrow> context_manager" where
  "addAgentTurn now txt cm =
     cm\<lparr>turns := turns cm @
       [\<lparr>speaker = js ''assistant'', turn_text = txt, isAgent = True, timestamp = now\<rparr>]\<rparr>"

text \<open>The message that the loop of \<open>buildMessages\<close> pushes for one turn.\<close>

definition turnMessage :: "turn \<Rightarrow> message" where
  "turnMessage t =
     (if isAgent t then \<lparr>role = Assistant, content = turn_text t\<rparr>
      else \<lparr>role = User, content = js ''['' @ speaker t @ js '']: '' @ turn_text t\<rparr>)"

definition buildMessages :: "context_manager \<Rightarrow> jsstring option \<Rightarrow> message list" where
  "buildMessages cm memoryContext =
     [\<lparr>role = System, content = instructions cm\<rparr>] @
     (if truthy memoryContext
      then [\<lparr>role = System,
             content = js ''Relevant context from past conversations:'' @ [10] @ the memoryContext\<rparr>]
      else []) @
     (if truthy (summary cm)
      then [\<lparr>role = System,
             content = js ''Conversation summary so far:'' @ [10] @ the (summary cm)\<rparr>]
      else []) @
     map turnMessage
       (if truthy (summary cm) then slice_from (turns cm) (- recentTurnsToKeep cm) else turns cm)"

definition shouldSummarize :: "context_manager \<Rightarrow> bool" where
  "shouldSummarize cm =
     (let totalTokens =
            foldl (\<lambda>acc t. acc + estimateTokens (turn_text t) + 10)
              (estimateTokens (instructions cm)) (turns cm)
      in totalTokens > maxContextTokens cm)"

definition transcriptLine :: "turn \<Rightarrow> jsstring" where
  "transcriptLine t = js ''['' @ speaker t @ js '']: '' @ turn_text t"

definition summaryPrompt :: "context_manager \<Rightarrow> message list" where
  "summaryPrompt cm =
     (let olderTurns = slice (turns cm) 0 (- recentTurnsToKeep cm);
          transcript = join [10] (map transcriptLine olderTurns)
      in [\<lparr>role = System,
            content = js ''Summarize this conversation concisely, preserving key facts, decisions, and action items.''\<rparr>,
          \<lparr>role = User, content = transcript\<rparr>])"

text \<open>The text that the \<open>for await\<close> loop of \<open>summarize\<close> collects from the chunks.\<close>

definition collectTokens :: "llm_chunk list \<Rightarrow> jsstring" where
  "collectTokens chunks =
     foldl (\<lambda>summaryText chunk.
              if ctype chunk = Token \<and> truthy (token chunk)
              then summaryText @ the (token chunk) else summaryText)
       [] chunks"

text \<open>
  \<open>summarize\<close> is \<open>async\<close>: its promise is fulfilled (\<open>Inr ()\<close>) or rejected with
  the value thrown (\<open>Inl\<close>), and the object is left in the state returned beside it.
  The fields are assigned after the loop only, so a stream that throws leaves before
  any assignment.
\<close>

definition summarize :: "llm_plugin \<Rightarrow> context_manager \<Rightarrow> (js_error + unit) \<times> context_manager" where
  "summarize llm cm =
     (if int (length (turns cm)) \<le> recentTurnsToKeep cm then (Inr (), cm)
      else
        (case llm (summaryPrompt cm) of
           (chunks, Threw err) \<Rightarrow> (Inl err, cm)
         | (chunks, Returned) \<Rightarrow>
             (let summaryText = collectTokens chunks
              in (Inr (),
                  cm\<lparr>summary :=
                        Some (if truthy (summary cm)
                              then the (summary cm) @ [10, 10] @ summaryText
                              else summaryText),
                      turns := slice_from (turns cm) (- recentTurnsToKeep cm)\<rparr>))))"

definition getFullTranscript :: "context_manager \<Rightarrow> jsstring" where
  "getFullTranscript cm = join [10] (map transcriptLine (turns cm))"

definition reset_context :: "context_manager \<Rightarrow> context_manager" where
  "reset_context cm = cm\<lparr>turns := [], summary := None\<rparr>"

text \<open>The summary that \<open>summarize\<close> assigns: the text collected from the stream, put
  behind the summary so far and an empty line when there is one.\<close>

definition newSummary :: "context_manager \<Rightarrow> jsstring \<Rightarrow> jsstring" where
  "newSummary cm summaryText =
     (if truthy (summary cm) then the (summary cm) @ [10, 10] @ summaryText else summaryText)"

text \<open>Inputs for the concrete runs below: a manager told to keep no turn verbatim and one
  told to keep one, each holding two turns; a plugin whose stream yields one token and
  ends, and one whose stream yields a token and then throws.\<close>

definition twoTurns :: "turn list" where
  "twoTurns =
     [\<lparr>speaker = js ''Al'', turn_text = js ''Hi'', isAgent = False, timestamp = 1\<rparr>,
      \<lparr>speaker = js ''assistant'', turn_text = js ''Hello'', isAgent = True, timestamp = 2\<rparr>]"

definition keepNone :: context_manager where
  "keepNone =
     (new_ContextManager
        \<lparr>opt_instructions = js ''Be brief.'', opt_maxContextTokens = None,
         opt_recentTurnsToKeep = Some 0\<rparr>)
     \<lparr>turns := twoTurns\<rparr>"

definition keepOne :: context_manager where
  "keepOne =
     (new_ContextManager
        \<lparr>opt_instructions = js ''Be brief.'', opt_maxContextTokens = Some 20,
         opt_recentTurnsToKeep = Some 1\<rparr>)
     \<lparr>turns := twoTurns\<rparr>"

definition tokenChunk :: "jsstring \<Rightarrow> llm_chunk" where
  "tokenChunk t = \<lparr>ctype = Token, token = Some t, segment = None, toolCall = None, usage = None\<rparr>"

definition doneChunk :: llm_chunk where
  "doneChunk = \<lparr>ctype = Done, token = None, segment = None, toolCall = None, usage = None\<rparr>"

definition oneToken :: llm_plugin where
  "oneToken messages = ([tokenChunk (js ''Sum''), doneChunk], Returned)"

definition failingLLM :: llm_plugin where
  "failingLLM messages = ([tokenChunk (js ''Sum'')], Threw (Error (js ''Error'') (js ''boom'')))"

subsection \<open>The token estimate\<close>

lemma ceiling_one_div_numeral: "\<lceil>(1::real) / numeral n\<rceil> = 1"
  by (rule ceiling_unique) simp_all

lemma foldl_tokens:
  "foldl (\<lambda>acc t. acc + estimateTokens (turn_text t) + 10) a ts
     = a + (\<Sum>t\<leftarrow>ts. estimateTokens (turn_text t) + 10)"
  by (induction ts arbitrary: a) (simp_all add: algebra_simps)

text \<open>
  C8. \<open>shouldSummarize\<close> is true exactly when the ceiling of a quarter of the length of
  the instructions, plus, for every stored turn, the ceiling of a quarter of the length of
  its text and 10, is strictly above \<open>maxContextTokens\<close>; and a manager built without
  that option has the bound 5000.
\<close>

theorem shouldSummarize_iff:
  "(shouldSummarize cm \<longleftrightarrow>
     \<lceil>real (length (instructions cm)) / 4\<rceil>
       + (\<Sum>t\<leftarrow>turns cm. \<lceil>real (length (turn_text t)) / 4\<rceil> + 10)
     > maxContextTokens cm) \<and>
   maxContextTokens (new_ContextManager (options\<lparr>opt_maxContextTokens := None\<rparr>)) = 5000"
proof -
  have "shouldSummarize cm \<longleftrightarrow>
      estimateTokens (instructions cm) + (\<Sum>t\<leftarrow>turns cm. estimateTokens (turn_text t) + 10)
      > maxContextTokens cm"
    by (simp add: shouldSummarize_def foldl_tokens)
  then show ?thesis by (simp add: estimateTokens_def new_ContextManager_def)
qed

text \<open>At \<open>keepOne\<close>: 9 characters of instructions and turns of 2 and 5 characters give
  \<open>3 + (1 + 10) + (2 + 10) = 26\<close>, above the bound 20.\<close>

theorem shouldSummarize_iff_witness:
  "shouldSummarize keepOne \<and> maxContextTokens keepOne = 20 \<and>
   \<lceil>real (length (instructions keepOne)) / 4\<rceil>
     + (\<Sum>t\<leftarrow>turns keepOne. \<lceil>real (length (turn_text t)) / 4\<rceil> + 10) = 26"
  using shouldSummarize_iff [of keepOne]
  by (simp add: keepOne_def twoTurns_def new_ContextManager_def js_def ceiling_one_div_numeral)

subsection \<open>Summarization\<close>

lemma slice_from_recent:
  assumes "0 < n" "n \<le> int (length xs)"
  shows "slice_from xs (- n) = drop (length xs - nat n) xs"
  using assms by (simp add: slice_from_def rel_index_def nat_diff_distrib' max_def)

lemma summarize_result:
  assumes "0 < recentTurnsToKeep cm"
    and "recentTurnsToKeep cm < int (length (turns cm))"
    and "llm (summaryPrompt cm) = (chunks, Returned)"
  shows "summarize llm cm =
    (Inr (), cm\<lparr>summary := Some (newSummary cm (collectTokens chunks)),
               turns := drop (length (turns cm) - nat (recentTurnsToKeep cm)) (turns cm)\<rparr>)"
  using assms by (simp add: summarize_def newSummary_def slice_from_recent)

lemma buildMessages_after:
  assumes "0 < recentTurnsToKeep cm" "int (length (turns cm)) = recentTurnsToKeep cm"
  shows "buildMessages cm None =
     \<lparr>role = System, content = instructions cm\<rparr> #
     (if truthy (summary cm)
      then [\<lparr>role = System, content = js ''Conversation summary so far:'' @ [10] @ the (summary cm)\<rparr>]
      else []) @ map turnMessage (turns cm)"
  using assms by (simp add: buildMessages_def truthy_def slice_from_recent)

text \<open>
  With at least one turn to keep, \<open>summarize\<close> does what C5 says: the last
  \<open>recentTurnsToKeep\<close> turns stay, the collected text goes behind the summary so far,
  and \<open>buildMessages\<close> then gives the instructions, the summary message (when the
  summary is not empty) and exactly the turns kept; with no more turns than
  \<open>recentTurnsToKeep\<close> nothing changes.
\<close>

lemma summarize_then_buildMessages:
  assumes "0 < recentTurnsToKeep cm"
    and "recentTurnsToKeep cm < int (length (turns cm))"
    and "llm (summaryPrompt cm) = (chunks, Returned)"
  shows "buildMessages (snd (summarize llm cm)) None =
     \<lparr>role = System, content = instructions cm\<rparr> #
     (if newSummary cm (collectTokens chunks) \<noteq> []
      then [\<lparr>role = System,
             content = js ''Conversation summary so far:'' @ [10] @ newSummary cm (collectTokens chunks)\<rparr>]
      else []) @
     map turnMessage (drop (length (turns cm) - nat (recentTurnsToKeep cm)) (turns cm))"
proof -
  let ?cm' = "cm\<lparr>summary := Some (newSummary cm (collectTokens chunks)),
               turns := drop (length (turns cm) - nat (recentTurnsToKeep cm)) (turns cm)\<rparr>"
  have "0 < recentTurnsToKeep ?cm'" "int (length (turns ?cm')) = recentTurnsToKeep ?cm'"
    using assms(1,2) by simp_all
  from buildMessages_after [OF this] show ?thesis
    unfolding summarize_result [of cm llm chunks, OF assms] by (simp add: truthy_def)
qed

lemma summarize_noop:
  assumes "int (length (turns cm)) \<le> recentTurnsToKeep cm"
  shows "summarize llm cm = (Inr (), cm)"
  using assms by (simp add: summarize_def)

text \<open>
  C5 at \<open>recentTurnsToKeep = 0\<close>. The manager holds two turns, more than it is to keep.
  \<open>summarize\<close> succeeds and sets the summary, but both turns are still there:
  \<open>slice(-0)\<close> is the whole array, not its last zero elements, and \<open>slice(0, -0)\<close>
  is empty, so the plugin was asked to summarize an empty transcript. The messages built
  afterwards are the instructions, the summary and both turns.
\<close>

theorem summarize_keep_zero:
  "recentTurnsToKeep keepNone = 0 \<and>
   length (turns keepNone) = 2 \<and>
   fst (summarize oneToken keepNone) = Inr () \<and>
   turns (snd (summarize oneToken keepNone)) = turns keepNone \<and>
   summary (snd (summarize oneToken keepNone)) = Some (js ''Sum'') \<and>
   content (summaryPrompt keepNone ! 1) = [] \<and>
   length (buildMessages (snd (summarize oneToken keepNone)) None) = 4"
  by (simp add: keepNone_def twoTurns_def oneToken_def tokenChunk_def doneChunk_def
      new_ContextManager_def summarize_def summaryPrompt_def slice_def slice_from_def
      rel_index_def collectTokens_def truthy_def buildMessages_def js_def)

text \<open>
  C10. When the manager holds more turns than it keeps, so that the plugin is called, and
  the stream of the plugin throws after any number of chunks, \<open>summarize\<close> is rejected
  with the value thrown and the manager is as it was: same turns, same summary. The text
  collected up to the throw is lost with the local variable that held it.
\<close>

theorem summarize_throw_keeps_state:
  assumes "int (length (turns cm)) > recentTurnsToKeep cm"
    and "llm (summaryPrompt cm) = (chunks, Threw err)"
  shows "summarize llm cm = (Inl err, cm)"
  using assms by (simp add: summarize_def)

theorem summarize_throw_keeps_state_witness:
  "int (length (turns keepOne)) > recentTurnsToKeep keepOne \<and>
   failingLLM (summaryPrompt keepOne) =
     ([tokenChunk (js ''Sum'')], Threw (Error (js ''Error'') (js ''boom''))) \<and>
   summarize failingLLM keepOne = (Inl (Error (js ''Error'') (js ''boom'')), keepOne)"
proof -
  have a: "int (length (turns keepOne)) > recentTurnsToKeep keepOne"
    by (simp add: keepOne_def twoTurns_def new_ContextManager_def)
  have b: "failingLLM (summaryPrompt keepOne) =
      ([tokenChunk (js ''Sum'')], Threw (Error (js ''Error'') (js ''boom'')))"
    by (simp add: failingLLM_def)
  from a b summarize_throw_keeps_state [of keepOne failingLLM, OF a b] show ?thesis by simp
qed

section \<open>BargeIn (src/core/barge-in.ts)\<close>

text \<open>
  Every \<open>new AbortController()\<close> makes a new object, and a signal handed out earlier
  stays reachable after the controller field is overwritten. The controllers made so far
  are kept in a store: a signal is an index into it and the entry is its \<open>aborted\<close>
  flag. A new controller takes the next free index.
\<close>

type_synonym signal = nat

type_synonym signal_heap = "bool list"

definition new_AbortController :: "signal_heap \<Rightarrow> signal \<times> signal_heap" where
  "new_AbortController h = (length h, h @ [False])"

definition abort :: "signal \<Rightarrow> signal_heap \<Rightarrow> signal_heap" where
  "abort s h = h[s := True]"

definition aborted :: "signal_heap \<Rightarrow> signal \<Rightarrow> bool" where
  "aborted h s \<longleftrightarrow> s < length h \<and> h ! s"

text \<open>
  The fields of the class. The interrupt callback is a procedure on the part \<open>'w\<close> of
  the program state outside this object; it is not given a way to call back into the
  object.
\<close>

record 'w barge_in =
  abortController :: "signal option"
  interrupted :: bool
  onInterrupt :: "('w \<Rightarrow> 'w) option"

definition new_BargeIn :: "'w barge_in" where
  "new_BargeIn = \<lparr>abortController = None, interrupted = False, onInterrupt = None\<rparr>"

definition set_onInterrupt :: "('w \<Rightarrow> 'w) option \<Rightarrow> 'w barge_in \<Rightarrow> 'w barge_in" where
  "set_onInterrupt cb b = b\<lparr>onInterrupt := cb\<rparr>"

definition startCycle :: "'w barge_in \<Rightarrow> signal_heap \<Rightarrow> signal \<times> 'w barge_in \<times> signal_heap" where
  "startCycle b h =
     (let (s, h') = new_AbortController h
      in (s, b\<lparr>abortController := Some s, interrupted := False\<rparr>, h'))"

definition trigger :: "'w barge_in \<Rightarrow> signal_heap \<Rightarrow> 'w \<Rightarrow> 'w barge_in \<times> signal_heap \<times> 'w" where
  "trigger b h w =
     (if interrupted b then (b, h, w)
      else
        (let b1 = b\<lparr>interrupted := True\<rparr>;
             (b2, h2) = (case abortController b1 of
                           Some s \<Rightarrow> (b1\<lparr>abortController := None\<rparr>, abort s h)
                         | None \<Rightarrow> (b1, h))
         in (b2, h2, case onInterrupt b2 of Some cb \<Rightarrow> cb w | None \<Rightarrow> w)))"

definition reset_bargeIn :: "'w barge_in \<Rightarrow> 'w barge_in" where
  "reset_bargeIn b = b\<lparr>interrupted := False, abortController := None\<rparr>"

text \<open>
  C9. Take any controller object, register a callback \<open>cb\<close>, start a cycle and call
  \<open>trigger()\<close> twice. The state outside the object after the second call is \<open>cb\<close>
  applied once to the state before the first: the first call runs the callback and the
  second does nothing. A \<open>startCycle()\<close> after the trigger then returns a signal that
  is not the signal of the cycle before and is not aborted, while that earlier signal is.
\<close>

theorem trigger_twice_startCycle:
  "(let (s1, b1, h1) = startCycle (set_onInterrupt (Some cb) b) h;
        (b2, h2, w2) = trigger b1 h1 w;
        (b3, h3, w3) = trigger b2 h2 w2;
        (s2, b4, h4) = startCycle b3 h3
    in w2 = cb w \<and> w3 = cb w \<and> s2 \<noteq> s1 \<and> \<not> aborted h4 s2 \<and> aborted h4 s1 \<and>
       \<not> interrupted b4)"
  by (simp add: startCycle_def set_onInterrupt_def trigger_def new_AbortController_def
      abort_def aborted_def nth_append)

text \<open>With a counter as the outside state and \<open>Suc\<close> as the callback, the counter reads
  one after both triggers.\<close>

theorem trigger_twice_startCycle_witness:
  "(let (s1, b1, h1) = startCycle (set_onInterrupt (Some Suc) new_BargeIn) [];
        (b2, h2, w2) = trigger b1 h1 (0::nat);
        (b3, h3, w3) = trigger b2 h2 w2;
        (s2, b4, h4) = startCycle b3 h3
    in w3 = 1 \<and> s1 = 0 \<and> s2 = 1 \<and> h4 = [True, False])"
  using trigger_twice_startCycle [of Suc new_BargeIn "[]" "0::nat"]
  by (simp add: startCycle_def set_onInterrupt_def trigger_def new_AbortController_def
      abort_def aborted_def new_BargeIn_def)

section \<open>Pipeline (src/core/pipeline.ts)\<close>

subsection \<open>State\<close>

datatype respond_mode = Always | Addressed

datatype agent_state = Idle | Listening | Thinking | Speaking

record transcription_result =
  tr_text :: jsstring
  isFinal :: bool
  confidence :: "real option"
  language :: "jsstring option"
  sttDuration :: "nat option"

text \<open>What the pipeline emits to its listeners, kept in the order of the \<open>emit\<close> calls.\<close>

datatype pipeline_event =
    TranscriptionEv jsstring transcription_result
  | SentenceEv jsstring
  | ResponseEv jsstring
  | AgentStateEv agent_state
  | ErrorEv js_error

text \<open>
  Of the audio output (src/room/audio-output.ts) the pipeline reads \<open>playing\<close> and
  calls \<open>beginResponse\<close>, \<open>endResponse\<close>, \<open>flush\<close>, \<open>writeStream\<close> and
  \<open>writeSilence\<close>. The flags are kept, with a count of the flushes; the samples are not.
\<close>

record audio_output =
  playing :: bool
  responding :: bool
  flushes :: nat

definition audio_flush :: "audio_output \<Rightarrow> audio_output" where
  "audio_flush a = a\<lparr>flushes := Suc (flushes a), playing := False\<rparr>"

text \<open>The fields that the interrupt callback of the pipeline works on.\<close>

record pipe_world =
  agentState :: agent_state
  events :: "pipeline_event list"
  splitter :: jsstring
  audioOutput :: audio_output

text \<open>Of the TTS plugin the pipeline itself uses the two optional members below; its
  \<open>synthesize\<close> is a collaborator whose outcomes are inputs of the model.\<close>

record tts_plugin =
  cleanText_fn :: "(jsstring \<Rightarrow> jsstring) option"
  defaultLanguage :: "jsstring option"

text \<open>
  The locals of a \<open>processTurn\<close> call that has reached its producer and consumer, and
  where each of the two is suspended. The producer waits for \<open>llmStream.next()\<close> or has
  returned. The consumer waits for the wake promise (\<open>CWoken\<close> once the promise has been
  resolved and its continuation is due), for \<open>synthesizeAndPlay\<close> of a sentence (the
  flag tells whether the first audio chunk has passed), or for the trailing
  \<open>writeSilence\<close> in its \<open>finally\<close> block (carrying the error to rethrow when the
  block was entered by a throw); or has returned.
\<close>

datatype producer_state = PAwaitNext | PFinished

datatype consumer_state =
    CAwaitWake
  | CWoken
  | CAwaitSynth jsstring bool
  | CAwaitSilence "js_error option"
  | CFinished

record cycle =
  signal :: signal
  fullResponse :: jsstring
  sentenceQueue :: "jsstring list"
  producerDone :: bool
  segBuf :: "segment list"
  firstAudioPlayed :: bool
  producer :: producer_state
  consumer :: consumer_state

text \<open>
  The one \<open>processTurn\<close> or \<open>say\<close> call that holds \<open>_processing\<close>, by the
  \<open>await\<close> it is suspended at.
\<close>

datatype task =
    NoTask
  | TurnAwaitWarmup jsstring jsstring
  | TurnAwaitSummarize jsstring jsstring
  | TurnAwaitMemory jsstring jsstring signal
  | TurnRunning cycle
  | TurnAwaitDrain
  | SayAwaitWarmup jsstring
  | SayAwaitSynth jsstring signal bool
  | SayAwaitSilence jsstring signal
  | SayAwaitDrain

text \<open>
  The fields of the class. \<open>hasMemory\<close> tells whether a memory collaborator was given,
  \<open>memoryStored\<close> lists its \<open>storeTurn\<close> calls, \<open>llmRequests\<close> the message arrays
  handed to \<open>llm.chat\<close>, \<open>signals\<close> is the store of abort controllers and \<open>clock\<close>
  the value that \<open>Date.now()\<close> returns. \<open>deciding\<close> holds the \<open>handleTranscription\<close>
  calls that are suspended at \<open>await this.shouldRespond(speaker, text)\<close>, oldest first:
  the speaker and the text of each, and the value that its promise settles with. Any
  number of them can be suspended at a time, next to the one call that holds
  \<open>_processing\<close>. The per-participant
  STT sessions, the turn detector (whose callback is empty and which is never fed) and
  the latency stamps are left out: no control flow reads them.
\<close>

record pipeline =
  respondMode :: respond_mode
  agentName :: jsstring
  nameVariants :: "jsstring list"
  beforeRespond :: "(jsstring \<Rightarrow> jsstring \<Rightarrow> js_error + bool) option"
  tts :: "tts_plugin option"
  hasMemory :: bool
  context_mgr :: context_manager
  bargeIn :: "pipe_world barge_in"
  signals :: signal_heap
  world :: pipe_world
  processing :: bool
  running :: bool
  pendingTurn :: "(jsstring \<times> jsstring) option"
  deciding :: "(jsstring \<times> jsstring \<times> (js_error + bool)) list"
  memoryStored :: "(jsstring \<times> jsstring \<times> bool) list"
  llmRequests :: "message list list"
  clock :: nat
  task :: task

record pipeline_options =
  opt_tts :: "tts_plugin option"
  opt_pipeline_instructions :: jsstring
  opt_respondMode :: "respond_mode option"
  opt_agentName :: "jsstring option"
  opt_nameVariants :: "jsstring list option"
  opt_beforeRespond :: "(jsstring \<Rightarrow> jsstring \<Rightarrow> js_error + bool) option"
  opt_memory :: bool
  opt_pipeline_maxContextTokens :: "int option"

subsection \<open>Small methods\<close>

definition emit :: "pipeline_event \<Rightarrow> pipe_world \<Rightarrow> pipe_world" where
  "emit e w = w\<lparr>events := events w @ [e]\<rparr>"

definition setAgentState :: "agent_state \<Rightarrow> pipe_world \<Rightarrow> pipe_world" where
  "setAgentState st w =
     (if agentState w \<noteq> st then emit (AgentStateEv st) (w\<lparr>agentState := st\<rparr>) else w)"

text \<open>The callback that the constructor registers with the barge-in controller.\<close>

definition interruptCallback :: "pipe_world \<Rightarrow> pipe_world" where
  "interruptCallback w =
     setAgentState Idle
       (w\<lparr>audioOutput := audio_flush (audioOutput w), splitter := reset (splitter w)\<rparr>)"

text \<open>
  The constructor. \<open>toLowerCase\<close> stands for \<open>String.prototype.toLowerCase\<close>, a
  built-in whose Unicode tables are no part of the repository: it is a parameter here
  and of \<open>shouldRespond\<close>. The warm-up that the constructor starts is the promise that
  the first \<open>await\<close> of \<open>processTurn\<close> and \<open>say\<close> waits for.
\<close>

definition new_Pipeline :: "(jsstring \<Rightarrow> jsstring) \<Rightarrow> pipeline_options \<Rightarrow> pipeline" where
  "new_Pipeline toLowerCase options =
     \<lparr> respondMode = (case opt_respondMode options of None \<Rightarrow> Always | Some m \<Rightarrow> m),
       agentName = toLowerCase (case opt_agentName options of None \<Rightarrow> js ''assistant'' | Some n \<Rightarrow> n),
       nameVariants = map toLowerCase (case opt_nameVariants options of None \<Rightarrow> [] | Some vs \<Rightarrow> vs),
       beforeRespond = opt_beforeRespond options,
       tts = opt_tts options,
       hasMemory = opt_memory options,
       context_mgr = new_ContextManager
         \<lparr>opt_instructions = opt_pipeline_instructions options,
          opt_maxContextTokens = opt_pipeline_maxContextTokens options,
          opt_recentTurnsToKeep = None\<rparr>,
       bargeIn = set_onInterrupt (Some interruptCallback) new_BargeIn,
       signals = [],
       world = \<lparr>agentState = Idle, events = [], splitter = [],
                audioOutput = \<lparr>playing = False, responding = False, flushes = 0\<rparr>\<rparr>,
       processing = False,
       running = False,
       pendingTurn = None,
       deciding = [],
       memoryStored = [],
       llmRequests = [],
       clock = 0,
       task = NoTask \<rparr>"

definition cleanText :: "pipeline \<Rightarrow> jsstring \<Rightarrow> jsstring" where
  "cleanText p t =
     (case tts p of
        Some plugin \<Rightarrow> (case cleanText_fn plugin of Some f \<Rightarrow> f t | None \<Rightarrow> t)
      | None \<Rightarrow> t)"

definition storeTurn :: "jsstring \<Rightarrow> jsstring \<Rightarrow> bool \<Rightarrow> pipeline \<Rightarrow> pipeline" where
  "storeTurn spk txt agent p =
     (if hasMemory p then p\<lparr>memoryStored := memoryStored p @ [(spk, txt, agent)]\<rparr> else p)"

definition bargeIn_trigger :: "pipeline \<Rightarrow> pipeline" where
  "bargeIn_trigger p =
     (let (b, h, w) = trigger (bargeIn p) (signals p) (world p)
      in p\<lparr>bargeIn := b, signals := h, world := w\<rparr>)"

definition bargeIn_startCycle :: "pipeline \<Rightarrow> signal \<times> pipeline" where
  "bargeIn_startCycle p =
     (let (s, b, h) = startCycle (bargeIn p) (signals p)
      in (s, p\<lparr>bargeIn := b, signals := h\<rparr>))"

definition set_playing :: "bool \<Rightarrow> pipeline \<Rightarrow> pipeline" where
  "set_playing v p = p\<lparr>world := (world p)\<lparr>audioOutput := (audioOutput (world p))\<lparr>playing := v\<rparr>\<rparr>\<rparr>"

definition set_responding :: "bool \<Rightarrow> pipeline \<Rightarrow> pipeline" where
  "set_responding v p =
     p\<lparr>world := (world p)\<lparr>audioOutput := (audioOutput (world p))\<lparr>responding := v\<rparr>\<rparr>\<rparr>"

subsection \<open>shouldRespond\<close>

text \<open>\<open>hay.includes(needle)\<close>: the needle starts at some position of the hay.\<close>

fun str_includes :: "jsstring \<Rightarrow> jsstring \<Rightarrow> bool" where
  "str_includes [] needle = (needle = [])"
| "str_includes (c # hay) needle = (prefix needle (c # hay) \<or> str_includes hay needle)"

text \<open>
  The promise of \<open>shouldRespond\<close>: fulfilled with a truth value, or rejected when the
  hook throws or its promise is rejected.
\<close>

definition shouldRespond ::
  "(jsstring \<Rightarrow> jsstring) \<Rightarrow> pipeline \<Rightarrow> jsstring \<Rightarrow> jsstring \<Rightarrow> js_error + bool" where
  "shouldRespond toLowerCase p spk txt =
     (if respondMode p = Always then Inr True
      else
        (let lower = toLowerCase txt;
             nameMatch = str_includes lower (agentName p) \<or>
                         list_ex (\<lambda>v. str_includes lower v) (nameVariants p)
         in if \<not> nameMatch then Inr False
            else (case beforeRespond p of
                    Some hook \<Rightarrow> hook spk txt
                  | None \<Rightarrow> Inr True)))"

subsection \<open>Turn processing\<close>

text \<open>
  JavaScript runs one handler at a time, and an \<open>async\<close> function gives up control at
  an \<open>await\<close> only. The model follows that: an input is either a call from outside
  (\<open>handleTranscription\<close> through an STT session, \<open>say\<close>, \<open>stop\<close>), a new reading
  of the clock, or the settling of a promise that suspended code waits for, with the
  value that the collaborator settled it with. Each input runs the code from there to
  the next \<open>await\<close>. An input that no suspended code waits for changes nothing.

  \<open>handleTranscription\<close> awaits the promise of \<open>shouldRespond\<close>, and the
  \<open>beforeRespond\<close> hook may answer with a promise of its own. So the call is suspended
  there, and \<open>RespondDone k\<close> is the input that continues the \<open>k\<close>-th of the suspended
  calls: other inputs can be handled in between, and the calls need not continue in the
  order in which they began. Without a hook the promise is settled at once and the
  continuation runs in the same turn of the event loop; the model allows that schedule
  and every later one. The value of the promise is fixed when the call begins: it is
  \<open>shouldRespond\<close> on the configuration, the speaker and the text, the hook being a
  function of the last two.

  What the model takes from the collaborators: the warm-up promise is fulfilled
  (\<open>warmup\<close> catches the rejections of the plugins), and \<open>writeSilence\<close> and the
  drain delay do not throw. When \<open>Promise.all\<close> is rejected by one of
  producer and consumer, the other one is not followed any further: what it could still
  touch is the splitter, the audio output, the agent state \<open>speaking\<close> and the
  \<open>sentence\<close> events, never \<open>_processing\<close>, the pending turn or the barge-in
  controller.
\<close>

datatype llm_next = Yield llm_chunk | StreamEnd | StreamThrow js_error

datatype input =
    Transcription jsstring transcription_result
  | RespondDone nat
  | Say jsstring
  | Stop
  | Clock nat
  | WarmupDone
  | SummarizeDone llm_stream
  | MemoryDone "js_error + jsstring"
  | LlmNext llm_next
  | ConsumerWake
  | FirstAudio
  | SynthDone "js_error option"
  | SilenceDone
  | DrainDone

definition isAbortError :: "js_error \<Rightarrow> bool" where
  "isAbortError err = (case err of Error n m \<Rightarrow> n = js ''AbortError'' | NonError v \<Rightarrow> False)"

text \<open>\<open>err instanceof Error ? err : new Error(String(err))\<close>\<close>

definition asError :: "js_error \<Rightarrow> js_error" where
  "asError err = (case err of Error n m \<Rightarrow> Error n m | NonError v \<Rightarrow> Error (js ''Error'') v)"

text \<open>
  The entry of \<open>processTurn\<close>, up to its first \<open>await\<close>: a call while another one
  is processing stores the turn in the one pending slot, triggers the barge-in and
  returns; otherwise the call takes \<open>_processing\<close> and waits for the warm-up.
\<close>

definition processTurn :: "jsstring \<Rightarrow> jsstring \<Rightarrow> pipeline \<Rightarrow> pipeline" where
  "processTurn spk txt p =
     (if processing p then bargeIn_trigger (p\<lparr>pendingTurn := Some (spk, txt)\<rparr>)
      else p\<lparr>processing := True, task := TurnAwaitWarmup spk txt\<rparr>)"

text \<open>The \<open>finally\<close> block of \<open>processTurn\<close>; the call ends with it, and the pending
  turn, if there is one, is taken out of the slot and started.\<close>

definition turn_finally :: "pipeline \<Rightarrow> pipeline" where
  "turn_finally p =
     (let p1 = p\<lparr>processing := False, bargeIn := reset_bargeIn (bargeIn p), task := NoTask\<rparr>
      in case pendingTurn p1 of
           Some (nextSpeaker, nextText) \<Rightarrow> processTurn nextSpeaker nextText (p1\<lparr>pendingTurn := None\<rparr>)
         | None \<Rightarrow> p1)"

text \<open>The \<open>catch\<close> block of \<open>processTurn\<close>, followed by the \<open>finally\<close> block.\<close>

definition turn_catch :: "js_error \<Rightarrow> pipeline \<Rightarrow> pipeline" where
  "turn_catch err p =
     turn_finally
       (if isAbortError err then p else p\<lparr>world := emit (ErrorEv (asError err)) (world p)\<rparr>)"

text \<open>\<open>pushSentence\<close> and \<open>wake\<close>: a sentence pushed after the abort is dropped, and a
  consumer that waits for the wake promise is made ready to run.\<close>

definition wake :: "cycle \<Rightarrow> cycle" where
  "wake c = (if consumer c = CAwaitWake then c\<lparr>consumer := CWoken\<rparr> else c)"

definition pushSentence :: "signal_heap \<Rightarrow> jsstring \<Rightarrow> cycle \<Rightarrow> cycle" where
  "pushSentence h sentence c =
     (if aborted h (signal c) then c
      else wake (c\<lparr>sentenceQueue := sentenceQueue c @ [sentence]\<rparr>))"

text \<open>\<open>flushSegments\<close>: the buffered segments become one sentence, a segment in another
  language than the default one wrapped in a \<open>lang\<close> tag.\<close>

definition segmentMarkup :: "jsstring option \<Rightarrow> segment \<Rightarrow> jsstring" where
  "segmentMarkup defaultLang s =
     (if Some (lang s) \<noteq> defaultLang
      then js ''<lang xml:lang='' @ [34] @ lang s @ [34] @ js ''>'' @ seg_text s @ js ''</lang>''
      else seg_text s)"

definition flushSegments :: "pipeline \<Rightarrow> cycle \<Rightarrow> cycle" where
  "flushSegments p c =
     (if segBuf c = [] then c
      else
        (let defaultLang = (case tts p of Some plugin \<Rightarrow> defaultLanguage plugin | None \<Rightarrow> None);
             combined = join [32] (map (segmentMarkup defaultLang) (segBuf c))
         in pushSentence (signals p) combined (c\<lparr>segBuf := []\<rparr>)))"

text \<open>
  The test of the segment text against the end-of-sentence expression: a terminator,
  then any number of closing quotes or brackets (\<open>"\<close>, \<open>'\<close>, U+00BB, \<open>)\<close>), then white
  space up to the end. Read from the end, the three parts cannot overlap.
\<close>

definition isCloser :: "jschar \<Rightarrow> bool" where
  "isCloser c \<longleftrightarrow> c = 34 \<or> c = 39 \<or> c = 187 \<or> c = 41"

definition endsSentence :: "jsstring \<Rightarrow> bool" where
  "endsSentence t =
     (case dropWhile isCloser (dropWhile isWhiteSpace (rev t)) of
        [] \<Rightarrow> False
      | c # _ \<Rightarrow> isTerminator c)"

text \<open>The body of the producer's loop for one chunk that arrived before an abort.\<close>

definition producer_chunk :: "llm_chunk \<Rightarrow> pipeline \<Rightarrow> cycle \<Rightarrow> pipeline \<times> cycle" where
  "producer_chunk chunk p c =
     (if ctype chunk = Segment \<and> segment chunk \<noteq> None then
        (let seg = the (segment chunk);
             c1 = c\<lparr>fullResponse :=
                      (if fullResponse c \<noteq> [] then fullResponse c @ [32] else fullResponse c)
                      @ seg_text seg,
                    segBuf := segBuf c @ [seg]\<rparr>
         in (p, if endsSentence (seg_text seg) then flushSegments p c1 else c1))
      else if ctype chunk = Token \<and> truthy (token chunk) then
        (let tok = the (token chunk);
             c1 = c\<lparr>fullResponse := fullResponse c @ tok\<rparr>;
             (sentences, buffer) = push (splitter (world p)) tok;
             p1 = p\<lparr>world := (world p)\<lparr>splitter := buffer\<rparr>\<rparr>
         in (p1, foldl (\<lambda>c' sentence. pushSentence (signals p1) sentence c') c1 sentences))
      else (p, c))"

text \<open>The producer behind its loop: the flush of what is left, unless aborted, then
  \<open>producerDone\<close> and the wake.\<close>

definition producer_exit :: "pipeline \<Rightarrow> cycle \<Rightarrow> pipeline \<times> cycle" where
  "producer_exit p c =
     (let (p1, c1) =
            (if \<not> aborted (signals p) (signal c) then
               (let c' = flushSegments p c;
                    (remaining, buffer) = flush (splitter (world p));
                    p' = p\<lparr>world := (world p)\<lparr>splitter := buffer\<rparr>\<rparr>
                in (p', case remaining of
                          Some r \<Rightarrow> pushSentence (signals p') r c'
                        | None \<Rightarrow> c'))
             else (p, c))
      in (p1, wake (c1\<lparr>producerDone := True, producer := PFinished\<rparr>)))"

text \<open>The class \<open>\w\<close>.\<close>

definition isWordChar :: "jschar \<Rightarrow> bool" where
  "isWordChar c \<longleftrightarrow> (48 \<le> c \<and> c \<le> 57) \<or> (65 \<le> c \<and> c \<le> 90) \<or> c = 95 \<or> (97 \<le> c \<and> c \<le> 122)"

text \<open>The consumer leaves its loop by \<open>break\<close>: in its \<open>finally\<close> block the trailing
  silence is written unless aborted, then the response period ends.\<close>

definition consumer_exit :: "pipeline \<Rightarrow> cycle \<Rightarrow> pipeline \<times> cycle" where
  "consumer_exit p c =
     (if \<not> aborted (signals p) (signal c) then (p, c\<lparr>consumer := CAwaitSilence None\<rparr>)
      else (set_responding False p, c\<lparr>consumer := CFinished\<rparr>))"

text \<open>
  The consumer's loop from the top, up to the point where it waits for a collaborator
  or leaves. Without a TTS plugin \<open>synthesizeAndPlay\<close> only logs the sentence, so the
  loop goes straight on; with one, \<open>writeStream\<close> starts and sets \<open>playing\<close>. The
  queue gets shorter with every pass that continues.
\<close>

function consumer_loop :: "pipeline \<Rightarrow> cycle \<Rightarrow> pipeline \<times> cycle" where
  "consumer_loop p c =
     (if aborted (signals p) (signal c) then consumer_exit p c
      else
        (case sentenceQueue c of
           sentence # rest \<Rightarrow>
             (if \<not> list_ex isWordChar sentence then consumer_loop p (c\<lparr>sentenceQueue := rest\<rparr>)
              else if tts p = None then consumer_loop p (c\<lparr>sentenceQueue := rest\<rparr>)
              else (set_playing True p,
                    c\<lparr>sentenceQueue := rest, consumer := CAwaitSynth sentence False\<rparr>))
         | [] \<Rightarrow>
             (if producerDone c then consumer_exit p c
              else (p, c\<lparr>consumer := CAwaitWake\<rparr>))))"
  by pat_completeness auto
termination
  by (relation "measure (\<lambda>(p, c). length (sentenceQueue c))") auto

declare consumer_loop.simps [simp del]

text \<open>
  Behind \<open>await Promise.all([producer(), consumer()])\<close>: the response is recorded when
  its trimmed text is not empty, and the call waits for the audio to drain.
\<close>

definition turn_complete :: "pipeline \<Rightarrow> cycle \<Rightarrow> pipeline" where
  "turn_complete p c =
     (let response = trim (fullResponse c);
          p1 = (if response \<noteq> [] then
                  (let p' = p\<lparr>context_mgr := addAgentTurn (clock p) response (context_mgr p)\<rparr>;
                       p'' = storeTurn (js ''assistant'') response True p'
                   in p''\<lparr>world := emit (ResponseEv (cleanText p'' response)) (world p'')\<rparr>)
                else p)
      in p1\<lparr>task := TurnAwaitDrain\<rparr>)"

text \<open>After a step of the producer or the consumer: \<open>Promise.all\<close> is fulfilled once
  both have returned.\<close>

definition turn_join :: "pipeline \<times> cycle \<Rightarrow> pipeline" where
  "turn_join pc =
     (let (p, c) = pc
      in if producer c = PFinished \<and> consumer c = CFinished then turn_complete p c
         else p\<lparr>task := TurnRunning c\<rparr>)"

text \<open>
  From the building of the messages to the point where producer and consumer are both
  suspended. The producer is started first and runs to its first \<open>await\<close>; a signal
  aborted during the memory search makes it skip its loop. The consumer then calls
  \<open>beginResponse\<close> and enters its loop (\<open>CWoken\<close> is the consumer that is due to
  run). \<open>llmRequests\<close> lists the message arrays handed to \<open>llm.chat\<close>.
\<close>

definition turn_start_streams :: "signal \<Rightarrow> jsstring option \<Rightarrow> pipeline \<Rightarrow> pipeline" where
  "turn_start_streams sig memoryContext p =
     (let messages = buildMessages (context_mgr p) memoryContext;
          p1 = p\<lparr>world := setAgentState Thinking (world p), llmRequests := llmRequests p @ [messages]\<rparr>;
          c0 = \<lparr>signal = sig, fullResponse = [], sentenceQueue = [], producerDone = False,
                segBuf = [], firstAudioPlayed = False, producer = PAwaitNext,
                consumer = CWoken\<rparr>;
          (p2, c1) = (if aborted (signals p1) sig then producer_exit p1 c0 else (p1, c0));
          p3 = set_responding True p2
      in turn_join (consumer_loop p3 c1))"

definition turn_after_summarize :: "jsstring \<Rightarrow> jsstring \<Rightarrow> pipeline \<Rightarrow> pipeline" where
  "turn_after_summarize spk txt p =
     (let (sig, p1) = bargeIn_startCycle p
      in if hasMemory p1 then p1\<lparr>task := TurnAwaitMemory spk txt sig\<rparr>
         else turn_start_streams sig None p1)"

text \<open>Behind the warm-up: the \<open>try\<close> block begins.\<close>

definition turn_after_warmup :: "jsstring \<Rightarrow> jsstring \<Rightarrow> pipeline \<Rightarrow> pipeline" where
  "turn_after_warmup spk txt p =
     (let p1 = p\<lparr>context_mgr := addUserTurn (clock p) spk txt (context_mgr p)\<rparr>
      in if shouldSummarize (context_mgr p1) then p1\<lparr>task := TurnAwaitSummarize spk txt\<rparr>
         else turn_after_summarize spk txt p1)"

text \<open>
  \<open>await this.context.summarize(this.llm)\<close> settles: \<open>stream\<close> is what
  \<open>llm.chat\<close> answered to the summary prompt, used when \<open>summarize\<close> gets as far as
  calling it. A rejection goes to the \<open>catch\<close> block.
\<close>

definition turn_summarized :: "llm_stream \<Rightarrow> jsstring \<Rightarrow> jsstring \<Rightarrow> pipeline \<Rightarrow> pipeline" where
  "turn_summarized stream spk txt p =
     (let cm = context_mgr p;
          p1 = (if int (length (turns cm)) \<le> recentTurnsToKeep cm then p
                else p\<lparr>llmRequests := llmRequests p @ [summaryPrompt cm]\<rparr>)
      in case summarize (\<lambda>messages. stream) cm of
           (Inl err, cm') \<Rightarrow> turn_catch err (p1\<lparr>context_mgr := cm'\<rparr>)
         | (Inr u, cm') \<Rightarrow> turn_after_summarize spk txt (p1\<lparr>context_mgr := cm'\<rparr>))"

text \<open>\<open>await this.memory.searchRelevant(text)\<close> settles; a failure is logged and the
  context stays empty.\<close>

definition turn_memory_done ::
  "js_error + jsstring \<Rightarrow> signal \<Rightarrow> pipeline \<Rightarrow> pipeline" where
  "turn_memory_done r sig p =
     (let memoryContext = (case r of Inr found \<Rightarrow> found | Inl err \<Rightarrow> [])
      in turn_start_streams sig (if memoryContext \<noteq> [] then Some memoryContext else None) p)"

text \<open>\<open>await llmStream.next()\<close> settles in the producer.\<close>

definition producer_next :: "llm_next \<Rightarrow> pipeline \<Rightarrow> cycle \<Rightarrow> pipeline" where
  "producer_next r p c =
     (case r of
        StreamThrow err \<Rightarrow> turn_catch err p
      | StreamEnd \<Rightarrow> turn_join (producer_exit p c)
      | Yield chunk \<Rightarrow>
          if aborted (signals p) (signal c) then turn_join (producer_exit p c)
          else (let (p1, c1) = producer_chunk chunk p c in p1\<lparr>task := TurnRunning c1\<rparr>))"

text \<open>The callback that \<open>synthesizeAndPlay\<close> runs at the first audio chunk of a sentence
  of the consumer.\<close>

definition consumer_first_audio :: "jsstring \<Rightarrow> pipeline \<Rightarrow> cycle \<Rightarrow> pipeline" where
  "consumer_first_audio sentence p c =
     (let p1 = (if \<not> firstAudioPlayed c then p\<lparr>world := setAgentState Speaking (world p)\<rparr> else p);
          p2 = p1\<lparr>world := emit (SentenceEv (cleanText p1 sentence)) (world p1)\<rparr>
      in p2\<lparr>task := TurnRunning (c\<lparr>firstAudioPlayed := True, consumer := CAwaitSynth sentence True\<rparr>)\<rparr>)"

text \<open>
  \<open>await this.synthesizeAndPlay(...)\<close> settles in the consumer: \<open>writeStream\<close> has
  cleared \<open>playing\<close>; an \<open>AbortError\<close> was swallowed inside, any other error is
  thrown through the consumer's \<open>finally\<close> block.
\<close>

definition consumer_synth_done :: "js_error option \<Rightarrow> pipeline \<Rightarrow> cycle \<Rightarrow> pipeline" where
  "consumer_synth_done r p c =
     (let p1 = set_playing False p
      in case r of
           None \<Rightarrow> turn_join (consumer_loop p1 c)
         | Some err \<Rightarrow>
             if isAbortError err then turn_join (consumer_loop p1 c)
             else if \<not> aborted (signals p1) (signal c)
             then p1\<lparr>task := TurnRunning (c\<lparr>consumer := CAwaitSilence (Some err)\<rparr>)\<rparr>
             else turn_catch err (set_responding False p1))"

definition consumer_silence_done :: "js_error option \<Rightarrow> pipeline \<Rightarrow> cycle \<Rightarrow> pipeline" where
  "consumer_silence_done thrown p c =
     (let p1 = set_responding False p
      in case thrown of
           None \<Rightarrow> turn_join (p1, c\<lparr>consumer := CFinished\<rparr>)
         | Some err \<Rightarrow> turn_catch err p1)"

subsection \<open>say\<close>

definition say :: "jsstring \<Rightarrow> pipeline \<Rightarrow> pipeline" where
  "say txt p =
     (if processing p then p
      else p\<lparr>processing := True, task := SayAwaitWarmup txt\<rparr>)"

definition say_finally :: "pipeline \<Rightarrow> pipeline" where
  "say_finally p =
     (let p1 = (set_responding False p)
                 \<lparr>processing := False, bargeIn := reset_bargeIn (bargeIn p), task := NoTask\<rparr>
      in case pendingTurn p1 of
           Some (nextSpeaker, nextText) \<Rightarrow> processTurn nextSpeaker nextText (p1\<lparr>pendingTurn := None\<rparr>)
         | None \<Rightarrow> p1)"

definition say_catch :: "js_error \<Rightarrow> pipeline \<Rightarrow> pipeline" where
  "say_catch err p =
     say_finally
       (if isAbortError err then p else p\<lparr>world := emit (ErrorEv (asError err)) (world p)\<rparr>)"

definition say_after_warmup :: "jsstring \<Rightarrow> pipeline \<Rightarrow> pipeline" where
  "say_after_warmup txt p =
     (let (sig, p1) = bargeIn_startCycle p;
          p2 = set_responding True p1;
          p3 = p2\<lparr>world := setAgentState Thinking (world p2)\<rparr>
      in if tts p3 = None then p3\<lparr>task := SayAwaitSilence txt sig\<rparr>
         else (set_playing True p3)\<lparr>task := SayAwaitSynth txt sig False\<rparr>)"

definition say_first_audio :: "jsstring \<Rightarrow> signal \<Rightarrow> pipeline \<Rightarrow> pipeline" where
  "say_first_audio txt sig p =
     (let p1 = p\<lparr>world := setAgentState Speaking (world p)\<rparr>
      in p1\<lparr>world := emit (SentenceEv (cleanText p1 txt)) (world p1),
            task := SayAwaitSynth txt sig True\<rparr>)"

definition say_synth_done :: "js_error option \<Rightarrow> jsstring \<Rightarrow> signal \<Rightarrow> pipeline \<Rightarrow> pipeline" where
  "say_synth_done r txt sig p =
     (let p1 = set_playing False p;
          thrown = (case r of Some err \<Rightarrow> if isAbortError err then None else Some err | None \<Rightarrow> None)
      in case thrown of
           Some err \<Rightarrow> say_catch err p1
         | None \<Rightarrow>
             if \<not> aborted (signals p1) sig then p1\<lparr>task := SayAwaitSilence txt sig\<rparr>
             else p1\<lparr>task := SayAwaitDrain\<rparr>)"

text \<open>Behind \<open>writeSilence\<close> in \<open>say\<close>: the text is recorded as the agent's turn.\<close>

definition say_record :: "jsstring \<Rightarrow> pipeline \<Rightarrow> pipeline" where
  "say_record txt p =
     (let p1 = p\<lparr>context_mgr := addAgentTurn (clock p) txt (context_mgr p)\<rparr>;
          p2 = storeTurn (js ''assistant'') txt True p1
      in p2\<lparr>world := emit (ResponseEv (cleanText p2 txt)) (world p2), task := SayAwaitDrain\<rparr>)"

subsection \<open>Calls from outside and the step function\<close>

text \<open>
  \<open>handleTranscription\<close> up to its \<open>await\<close>. For a final transcript with text the
  call of \<open>shouldRespond\<close> is made, and the call is suspended on its promise.
\<close>

definition handleTranscription ::
  "(jsstring \<Rightarrow> jsstring) \<Rightarrow> jsstring \<Rightarrow> transcription_result \<Rightarrow> pipeline \<Rightarrow> pipeline" where
  "handleTranscription toLowerCase spk result p =
     (let p1 = p\<lparr>world := emit (TranscriptionEv spk result) (world p)\<rparr>;
          hasText = (trim (tr_text result) \<noteq> []);
          p2 = (if \<not> isFinal result \<and> hasText
                then p1\<lparr>world := setAgentState Listening (world p1)\<rparr> else p1);
          p3 = (if playing (audioOutput (world p2)) \<and> hasText then bargeIn_trigger p2 else p2)
      in if isFinal result \<and> hasText then
           (let txt = trim (tr_text result);
                p4 = storeTurn spk txt False p3
            in p4\<lparr>deciding := deciding p4 @ [(spk, txt, shouldRespond toLowerCase p4 spk txt)]\<rparr>)
         else if isFinal result then p3\<lparr>world := setAgentState Idle (world p3)\<rparr>
         else p3)"

text \<open>
  The promise of \<open>shouldRespond\<close> settles for the \<open>k\<close>-th suspended
  \<open>handleTranscription\<close> call, and the call runs to its end: \<open>processTurn\<close> is
  called when the value is true (its promise is not awaited), the agent state is set to
  \<open>idle\<close> when it is false, and a rejection leaves the call at once.
\<close>

definition handleTranscription_decided :: "nat \<Rightarrow> pipeline \<Rightarrow> pipeline" where
  "handleTranscription_decided k p =
     (if k < length (deciding p) then
        (let (spk, txt, answer) = deciding p ! k;
             p1 = p\<lparr>deciding := take k (deciding p) @ drop (Suc k) (deciding p)\<rparr>
         in case answer of
              Inl err \<Rightarrow> p1
            | Inr True \<Rightarrow> processTurn spk txt p1
            | Inr False \<Rightarrow> p1\<lparr>world := setAgentState Idle (world p1)\<rparr>)
      else p)"

definition stop :: "pipeline \<Rightarrow> pipeline" where
  "stop p =
     p\<lparr>running := False, bargeIn := reset_bargeIn (bargeIn p),
       world := (world p)\<lparr>splitter := reset (splitter (world p))\<rparr>\<rparr>"

definition step :: "(jsstring \<Rightarrow> jsstring) \<Rightarrow> input \<Rightarrow> pipeline \<Rightarrow> pipeline" where
  "step toLowerCase i p =
     (case i of
        Transcription spk result \<Rightarrow> handleTranscription toLowerCase spk result p
      | RespondDone k \<Rightarrow> handleTranscription_decided k p
      | Say txt \<Rightarrow> say txt p
      | Stop \<Rightarrow> stop p
      | Clock now \<Rightarrow> p\<lparr>clock := now\<rparr>
      | WarmupDone \<Rightarrow>
          (case task p of
             TurnAwaitWarmup spk txt \<Rightarrow> turn_after_warmup spk txt p
           | SayAwaitWarmup txt \<Rightarrow> say_after_warmup txt p
           | _ \<Rightarrow> p)
      | SummarizeDone stream \<Rightarrow>
          (case task p of
             TurnAwaitSummarize spk txt \<Rightarrow> turn_summarized stream spk txt p
           | _ \<Rightarrow> p)
      | MemoryDone r \<Rightarrow>
          (case task p of
             TurnAwaitMemory spk txt sig \<Rightarrow> turn_memory_done r sig p
           | _ \<Rightarrow> p)
      | LlmNext r \<Rightarrow>
          (case task p of
             TurnRunning c \<Rightarrow> if producer c = PAwaitNext then producer_next r p c else p
           | _ \<Rightarrow> p)
      | ConsumerWake \<Rightarrow>
          (case task p of
             TurnRunning c \<Rightarrow> if consumer c = CWoken then turn_join (consumer_loop p c) else p
           | _ \<Rightarrow> p)
      | FirstAudio \<Rightarrow>
          (case task p of
             TurnRunning c \<Rightarrow>
               (case consumer c of
                  CAwaitSynth sentence False \<Rightarrow> consumer_first_audio sentence p c
                | _ \<Rightarrow> p)
           | SayAwaitSynth txt sig False \<Rightarrow> say_first_audio txt sig p
           | _ \<Rightarrow> p)
      | SynthDone r \<Rightarrow>
          (case task p of
             TurnRunning c \<Rightarrow>
               (case consumer c of
                  CAwaitSynth sentence heard \<Rightarrow> consumer_synth_done r p c
                | _ \<Rightarrow> p)
           | SayAwaitSynth txt sig heard \<Rightarrow> say_synth_done r txt sig p
           | _ \<Rightarrow> p)
      | SilenceDone \<Rightarrow>
          (case task p of
             TurnRunning c \<Rightarrow>
               (case consumer c of
                  CAwaitSilence thrown \<Rightarrow> consumer_silence_done thrown p c
                | _ \<Rightarrow> p)
           | SayAwaitSilence txt sig \<Rightarrow> say_record txt p
           | _ \<Rightarrow> p)
      | DrainDone \<Rightarrow>
          (case task p of
             TurnAwaitDrain \<Rightarrow> turn_finally (p\<lparr>world := setAgentState Idle (world p)\<rparr>)
           | SayAwaitDrain \<Rightarrow> say_finally (p\<lparr>world := setAgentState Idle (world p)\<rparr>)
           | _ \<Rightarrow> p))"

text \<open>A run of the pipeline: the inputs handled one after the other.\<close>

definition run :: "(jsstring \<Rightarrow> jsstring) \<Rightarrow> input list \<Rightarrow> pipeline \<Rightarrow> pipeline" where
  "run toLowerCase inputs p = foldl (\<lambda>q i. step toLowerCase i q) p inputs"

subsection \<open>Inputs for the concrete runs\<close>

text \<open>
  A lower-casing of the ASCII letters stands in for \<open>toLowerCase\<close> where a run needs
  one. The options are those of the repository's pipeline tests: the defaults without a
  TTS plugin, the same with one, and the addressed mode with the agent name \<open>Tutor\<close>.
\<close>

definition asciiLower :: "jsstring \<Rightarrow> jsstring" where
  "asciiLower s = map (\<lambda>c. if 65 \<le> c \<and> c \<le> 90 then c + 32 else c) s"

definition plainOptions :: pipeline_options where
  "plainOptions =
     \<lparr>opt_tts = None, opt_pipeline_instructions = js ''You are a helpful assistant.'',
      opt_respondMode = None, opt_agentName = None,
      opt_nameVariants = None, opt_beforeRespond = None, opt_memory = False,
      opt_pipeline_maxContextTokens = None\<rparr>"

definition voiceOptions :: pipeline_options where
  "voiceOptions = plainOptions\<lparr>opt_tts := Some \<lparr>cleanText_fn = None, defaultLanguage = None\<rparr>\<rparr>"

definition tutorOptions :: pipeline_options where
  "tutorOptions = plainOptions\<lparr>opt_respondMode := Some Addressed, opt_agentName := Some (js ''Tutor'')\<rparr>"

definition finalText :: "jsstring \<Rightarrow> transcription_result" where
  "finalText t =
     \<lparr>tr_text = t, isFinal = True, confidence = None, language = None, sttDuration = None\<rparr>"

definition interimText :: "jsstring \<Rightarrow> transcription_result" where
  "interimText t =
     \<lparr>tr_text = t, isFinal = False, confidence = None, language = None, sttDuration = None\<rparr>"

text \<open>
  A turn that is interrupted: the first question starts a cycle, the LLM yields one
  token, a second final transcript arrives (it is queued and aborts the signal of the
  cycle), and the LLM stream, which checks the signal as the test double \<open>MockLLM\<close> and
  the OpenRouter plugin do, ends without throwing. There is no hook, so each transcript
  is decided as soon as it has arrived. \<open>queuedTurn\<close> stops when the second transcript
  has been handled; \<open>bargedTurn\<close> goes on until producer and consumer have both
  returned.
\<close>

definition queuedTurn :: "input list" where
  "queuedTurn =
     [Transcription (js ''user1'') (finalText (js ''First question'')),
      RespondDone 0,
      WarmupDone,
      LlmNext (Yield (tokenChunk (js ''Hello there''))),
      Transcription (js ''user1'') (finalText (js ''New question'')),
      RespondDone 0]"

definition bargedTurn :: "input list" where
  "bargedTurn = queuedTurn @ [LlmNext StreamEnd, ConsumerWake]"

text \<open>An announcement that is interrupted while it plays, a turn whose LLM stream
  throws at once, and an announcement whose synthesis throws after the first audio.\<close>

definition bargedSay :: "input list" where
  "bargedSay =
     [Say (js ''Welcome to the room''),
      WarmupDone,
      FirstAudio,
      Transcription (js ''user1'') (interimText (js ''wait'')),
      SynthDone None]"

definition failedTurn :: "input list" where
  "failedTurn =
     [Transcription (js ''user1'') (finalText (js ''Hello'')),
      RespondDone 0,
      WarmupDone,
      LlmNext (StreamThrow (Error (js ''Error'') (js ''boom'')))]"

definition failedSay :: "input list" where
  "failedSay =
     [Say (js ''Welcome to the room''),
      WarmupDone,
      FirstAudio,
      SynthDone (Some (Error (js ''Error'') (js ''boom'')))]"

lemmas pipeline_eval =
  run_def step_def handleTranscription_def handleTranscription_decided_def shouldRespond_def
  processTurn_def turn_finally_def
  turn_catch_def wake_def pushSentence_def flushSegments_def producer_chunk_def
  producer_exit_def consumer_exit_def consumer_loop.simps turn_complete_def turn_join_def
  turn_start_streams_def turn_after_summarize_def turn_after_warmup_def turn_summarized_def
  turn_memory_done_def producer_next_def consumer_first_audio_def consumer_synth_done_def
  consumer_silence_done_def say_def say_finally_def say_catch_def say_after_warmup_def
  say_first_audio_def say_synth_done_def say_record_def stop_def
  new_Pipeline_def cleanText_def storeTurn_def bargeIn_trigger_def bargeIn_startCycle_def
  set_playing_def set_responding_def emit_def setAgentState_def interruptCallback_def
  audio_flush_def isAbortError_def asError_def
  startCycle_def trigger_def reset_bargeIn_def new_BargeIn_def set_onInterrupt_def
  new_AbortController_def abort_def aborted_def
  new_ContextManager_def addUserTurn_def addAgentTurn_def shouldSummarize_def
  estimateTokens_def buildMessages_def truthy_def
  push_def flush_def reset_def extractChunks.simps splitStep_def sentenceRule_def
  sentenceMatch_def clauseRule_def clauseMatch_def wordRule_def lastIndexOf_def
  isTerminator_def isWhiteSpace_def isClauseSep_def trim_def MIN_CHUNK_def MAX_CHUNK_def
  js_def Let_def tokenChunk_def doneChunk_def ceiling_one_div_numeral
  asciiLower_def plainOptions_def voiceOptions_def tutorOptions_def finalText_def
  interimText_def queuedTurn_def bargedTurn_def bargedSay_def failedTurn_def failedSay_def

subsection \<open>When the agent answers\<close>

lemma str_includes_sublist: "str_includes hay needle \<longleftrightarrow> sublist needle hay"
  by (induction hay) (simp_all add: sublist_Cons_right)

text \<open>
  C7. In the mode \<open>always\<close> the promise of \<open>shouldRespond\<close> is fulfilled with true
  for every transcript. In the mode \<open>addressed\<close> it is fulfilled with true exactly
  when the lower-cased text has the stored agent name or one of the stored variants as a
  substring and, where a hook is configured, the hook is fulfilled with true. The names
  are stored lower-cased by the constructor, the agent name defaulting to
  \<open>assistant\<close>. \<open>sublist n h\<close> is the library's "\<open>h\<close> is \<open>n\<close> with something before
  and something behind".
\<close>

theorem shouldRespond_iff:
  "(respondMode p = Always \<longrightarrow> shouldRespond lc p spk txt = Inr True) \<and>
   (respondMode p = Addressed \<longrightarrow>
      (shouldRespond lc p spk txt = Inr True \<longleftrightarrow>
         (sublist (agentName p) (lc txt) \<or> (\<exists>v\<in>set (nameVariants p). sublist v (lc txt))) \<and>
         (\<forall>hook. beforeRespond p = Some hook \<longrightarrow> hook spk txt = Inr True))) \<and>
   agentName (new_Pipeline lc options) =
     lc (case opt_agentName options of None \<Rightarrow> js ''assistant'' | Some n \<Rightarrow> n) \<and>
   nameVariants (new_Pipeline lc options) =
     map lc (case opt_nameVariants options of None \<Rightarrow> [] | Some vs \<Rightarrow> vs)"
  by (auto simp: shouldRespond_def Let_def str_includes_sublist list_ex_iff new_Pipeline_def
      split: option.splits)

text \<open>The two transcripts of the repository's test of the addressed mode.\<close>

theorem shouldRespond_iff_witness:
  "shouldRespond asciiLower (new_Pipeline asciiLower tutorOptions) (js ''user1'')
     (js ''Hey Tutor, help me'') = Inr True \<and>
   shouldRespond asciiLower (new_Pipeline asciiLower tutorOptions) (js ''user1'')
     (js ''hello everyone'') = Inr False"
proof -
  let ?p = "new_Pipeline asciiLower tutorOptions"
  have m: "respondMode ?p = Addressed" and h: "beforeRespond ?p = None"
    and n: "agentName ?p = js ''tutor''"
    by (simp_all add: new_Pipeline_def tutorOptions_def plainOptions_def asciiLower_def js_def)
  have "asciiLower (js ''Hey Tutor, help me'') = js ''hey '' @ js ''tutor'' @ js '', help me''"
    by (simp add: asciiLower_def js_def)
  then have sub: "sublist (agentName ?p) (asciiLower (js ''Hey Tutor, help me''))"
    unfolding n sublist_def by blast
  note inst = shouldRespond_iff [of "?p" asciiLower "js ''user1''" "js ''Hey Tutor, help me''" tutorOptions]
  from m h sub inst
  have "shouldRespond asciiLower ?p (js ''user1'') (js ''Hey Tutor, help me'') = Inr True"
    by (simp only: option.distinct) blast
  moreover have "shouldRespond asciiLower ?p (js ''user1'') (js ''hello everyone'') = Inr False"
    by (simp add: shouldRespond_def new_Pipeline_def tutorOptions_def plainOptions_def
        asciiLower_def js_def)
  ultimately show ?thesis by simp
qed

subsection \<open>A cancelled cycle\<close>

text \<open>
  C1 on the interrupted turn \<open>bargedTurn\<close>. The signal of the cycle (the first one made,
  index 0) has been aborted by the barge-in of the second transcript while the producer
  held the partial text \<open>Hello there\<close>. Producer and consumer both return normally,
  and the code behind \<open>Promise.all\<close> does not look at the signal: the partial text is
  recorded as the agent's turn and emitted as a response, and the queued turn still
  waits in its slot.
\<close>

theorem barged_turn_recorded:
  "(let p = run asciiLower bargedTurn (new_Pipeline asciiLower plainOptions)
    in aborted (signals p) 0 \<and>
       last (events (world p)) = ResponseEv (js ''Hello there'') \<and>
       map turn_text (turns (context_mgr p)) = [js ''First question'', js ''Hello there''] \<and>
       map isAgent (turns (context_mgr p)) = [False, True] \<and>
       pendingTurn p = Some (js ''user1'', js ''New question'') \<and>
       task p = TurnAwaitDrain)"
  by (simp add: pipeline_eval)

text \<open>The sibling path \<open>say\<close> tests the signal before it records: an announcement
  interrupted while it plays leaves no turn and no response.\<close>

lemma barged_say_not_recorded:
  "(let p = run asciiLower bargedSay (new_Pipeline asciiLower voiceOptions)
    in aborted (signals p) 0 \<and>
       turns (context_mgr p) = [] \<and>
       filter (\<lambda>e. case e of ResponseEv t \<Rightarrow> True | _ \<Rightarrow> False) (events (world p)) = [] \<and>
       task p = SayAwaitDrain)"
  by (simp add: pipeline_eval)

subsection \<open>A failed cycle\<close>

text \<open>
  C2 on a turn whose LLM stream throws and on an announcement whose synthesis throws
  after the first audio. In both runs the error is caught and emitted and
  \<open>_processing\<close> is cleared, but no code on that path sets the agent state: it is
  still \<open>thinking\<close> after the failed turn and \<open>speaking\<close> after the failed
  announcement, with no task left that could change it.
\<close>

theorem failed_turn_stays_thinking:
  "(let p = run asciiLower failedTurn (new_Pipeline asciiLower plainOptions);
        q = run asciiLower failedSay (new_Pipeline asciiLower voiceOptions)
    in last (events (world p)) = ErrorEv (Error (js ''Error'') (js ''boom'')) \<and>
       agentState (world p) = Thinking \<and> \<not> processing p \<and> task p = NoTask \<and>
       pendingTurn p = None \<and>
       last (events (world q)) = ErrorEv (Error (js ''Error'') (js ''boom'')) \<and>
       agentState (world q) = Speaking \<and> \<not> processing q \<and> task q = NoTask \<and>
       pendingTurn q = None)"
  by (simp add: pipeline_eval)

text \<open>Without a task, no settling promise is left: the state stays as it is until the
  next call from outside.\<close>

lemma idle_pipeline_waits:
  assumes "task p = NoTask"
    and "i \<in> {WarmupDone, SummarizeDone stream, MemoryDone found, LlmNext r, ConsumerWake,
              FirstAudio, SynthDone thrown, SilenceDone, DrainDone}"
  shows "step lc i p = p"
  using assms by (auto simp add: step_def)

subsection \<open>The pending turn\<close>



text \<open>
  The notions of the proof of C6. A step of the pipeline either ends the present call,
  or stays inside it (or finds no call to continue), or starts a call on an idle
  pipeline, or queues a turn behind the present call.
\<close>









text \<open>The parts of \<open>handleTranscription\<close> before the call of \<open>shouldRespond\<close>: the events, the barge-in while audio plays, the memory.\<close>

definition heard_world :: "jsstring \<Rightarrow> transcription_result \<Rightarrow> pipe_world \<Rightarrow> pipe_world" where
  "heard_world spk result w =
     (if \<not> isFinal result \<and> trim (tr_text result) \<noteq> []
      then setAgentState Listening (emit (TranscriptionEv spk result) w)
      else emit (TranscriptionEv spk result) w)"

definition heard_barge :: "jsstring \<Rightarrow> transcription_result \<Rightarrow> pipeline \<Rightarrow> pipeline" where
  "heard_barge spk result p =
     (if playing (audioOutput (heard_world spk result (world p))) \<and> trim (tr_text result) \<noteq> []
      then bargeIn_trigger (p\<lparr>world := heard_world spk result (world p)\<rparr>)
      else p\<lparr>world := heard_world spk result (world p)\<rparr>)"

definition heard :: "jsstring \<Rightarrow> transcription_result \<Rightarrow> pipeline \<Rightarrow> pipeline" where
  "heard spk result p =
     (if isFinal result \<and> trim (tr_text result) \<noteq> []
      then storeTurn spk (trim (tr_text result)) False (heard_barge spk result p)
      else heard_barge spk result p)"







































lemma abort_keeps: "h ! s \<Longrightarrow> s < length h \<Longrightarrow> h[i := True] ! s"
  by (cases "i = s") simp_all







































































end
